theory Spec2Isabelle
  imports Main "HOL-Library.Multiset"
begin

section \<open>bookmyroom: the booking handlers of main.go over the schema\<close>

text \<open>
  The program is a set of HTTP handlers (main.go), each a short sequence of SQL statements
  against three tables (users, rooms, bookings). The handlers are embedded as functions
  from the store and the decoded request to a response and the new store; each SQL
  statement is a function on the tables that enforces the constraints of the schema
  (primary-key sequences, UNIQUE, CHECK, REFERENCES).

  Instants (Go's \<open>time.Time\<close>, the store's \<open>TIMESTAMPTZ\<close>) are integers: only their order
  is used. The \<open>created_at\<close> columns are left out: no handler reads them for a decision.
  A failure of the connection to the store is not modelled; the store errors that are
  modelled are the ones the schema and the protocol produce.
\<close>

subsection \<open>Rows and the store\<close>

type_synonym instant = int

record user_row =
  u_id :: int
  u_email :: string
  u_password_hash :: string
  u_role :: string

record room_row =
  r_id :: int
  r_name :: string
  r_description :: string
  r_capacity :: int
  r_photo_url :: string
  r_is_active :: bool

text \<open>\<open>type Booking struct\<close> and the columns of table \<open>bookings\<close>.\<close>

record Booking =
  b_id :: int
  b_room_id :: int
  b_user_id :: int
  b_start_time :: instant
  b_end_time :: instant
  b_status :: string

text \<open>The statements the handlers send, recorded in the order the store receives them.\<close>

datatype stmt =
  InsertUser
| SelectRoomBookings
| CountOverlapping
| InsertBooking
| SelectMyBookings
| SelectOwner
| UpdateStatus
| UpdateCancelled

record db =
  users :: "user_row list"
  rooms :: "room_row list"
  bookings :: "Booking list"
  users_id_seq :: int
  bookings_id_seq :: int
  received :: "stmt list"

datatype db_error =
  UniqueViolation
| ForeignKeyViolation
| CheckViolation
| NoParameter

definition receive :: "stmt \<Rightarrow> db \<Rightarrow> db" where
  "receive q d = d\<lparr>received := received d @ [q]\<rparr>"

subsection \<open>Responses\<close>

datatype http_status =
  StatusOK
| StatusCreated
| StatusBadRequest
| StatusUnauthorized
| StatusForbidden
| StatusNotFound
| StatusConflict
| StatusInternalServerError

datatype payload =
  ErrorBody
| IdBody int
| StatusBody string
| BookingsBody "Booking list"
| UserBody int string string

type_synonym response = "http_status \<times> payload"

record AuthUser =
  au_ID :: int
  au_Role :: string

subsection \<open>Library functions on strings\<close>

text \<open>
  The handlers normalise a status and an email with \<open>strings.ToLower\<close> and
  \<open>strings.TrimSpace\<close> of Go's library, which work on Unicode text. The two functions
  are parameters of the handlers that call them, as the package \<open>strings\<close>; what is
  proved of a handler holds for every pair of functions, so for the library's.
\<close>

record strings_pkg =
  ToLower :: "string \<Rightarrow> string"
  TrimSpace :: "string \<Rightarrow> string"

subsection \<open>The overlap test of the admission query\<close>

text \<open>
  The WHERE clause of the count in \<open>handleCreateBooking\<close>:
  \<open>NOT ($3 <= start_time OR $2 >= end_time)\<close> with \<open>$2\<close> the requested start and
  \<open>$3\<close> the requested end, as a predicate on two intervals (start, end).
\<close>

definition sql_overlap :: "instant \<times> instant \<Rightarrow> instant \<times> instant \<Rightarrow> bool" where
  "sql_overlap a b = (\<not> (snd a \<le> fst b \<or> fst a \<ge> snd b))"

text \<open>The contract of the specification: \<open>a.start < b.end AND b.start < a.end\<close>.\<close>

definition overlaps_spec :: "instant \<times> instant \<Rightarrow> instant \<times> instant \<Rightarrow> bool" where
  "overlaps_spec a b = (fst a < snd b \<and> fst b < snd a)"

definition active :: "Booking \<Rightarrow> bool" where
  "active b = (b_status b = ''pending'' \<or> b_status b = ''confirmed'')"

definition interval :: "Booking \<Rightarrow> instant \<times> instant" where
  "interval b = (b_start_time b, b_end_time b)"

subsection \<open>Statements on table bookings\<close>

text \<open>
  \<open>SELECT count(*) FROM bookings WHERE room_id = $1 AND status IN ('pending', 'confirmed')
  AND NOT ($3 <= start_time OR $2 >= end_time)\<close>
\<close>

definition count_overlapping :: "db \<Rightarrow> int \<Rightarrow> instant \<Rightarrow> instant \<Rightarrow> nat \<times> db" where
  "count_overlapping d room s e =
     (length (filter (\<lambda>b. b_room_id b = room \<and> active b \<and> sql_overlap (s, e) (interval b))
                (bookings d)),
      receive CountOverlapping d)"

definition status_check :: "string \<Rightarrow> bool" where
  "status_check st = (st = ''pending'' \<or> st = ''confirmed'' \<or> st = ''cancelled'')"

text \<open>
  \<open>INSERT INTO bookings (room_id, user_id, start_time, end_time, status)
  VALUES ($1, $2, $3, $4, 'confirmed') RETURNING id\<close>.
  The id is the next value of the sequence, which stays consumed when the row is refused;
  the row is refused when \<open>room_id\<close> or \<open>user_id\<close> references no row.
\<close>

definition insert_booking ::
  "db \<Rightarrow> int \<Rightarrow> int \<Rightarrow> instant \<Rightarrow> instant \<Rightarrow> (db_error + int) \<times> db" where
  "insert_booking d room uid s e =
     (let i = bookings_id_seq d + 1;
          d1 = receive InsertBooking (d\<lparr>bookings_id_seq := i\<rparr>)
      in if list_ex (\<lambda>r. r_id r = room) (rooms d) \<and> list_ex (\<lambda>u. u_id u = uid) (users d)
         then (Inr i,
               d1\<lparr>bookings := bookings d @
                     [\<lparr>b_id = i, b_room_id = room, b_user_id = uid, b_start_time = s,
                       b_end_time = e, b_status = ''confirmed''\<rparr>]\<rparr>)
         else (Inl ForeignKeyViolation, d1))"

subsection \<open>handleCreateBooking\<close>

record createBookingRequest =
  cb_RoomID :: int
  cb_StartTime :: string
  cb_EndTime :: string

text \<open>
  The handler up to and including the count: either it has answered, or it goes on to the
  insert with the room, the caller, and the parsed interval. \<open>parse\<close> stands for
  \<open>time.Parse(time.RFC3339, _)\<close>; the body is \<open>None\<close> when \<open>readJSON\<close> fails.
\<close>

datatype admission =
  Answered response
| Admit int int instant instant

definition createBooking_check ::
  "(string \<Rightarrow> instant option) \<Rightarrow> db \<Rightarrow> AuthUser option \<Rightarrow> createBookingRequest option
   \<Rightarrow> admission \<times> db" where
  "createBooking_check parse d user body =
     (case user of
        None \<Rightarrow> (Answered (StatusUnauthorized, ErrorBody), d)
      | Some u \<Rightarrow>
     (case body of
        None \<Rightarrow> (Answered (StatusBadRequest, ErrorBody), d)
      | Some req \<Rightarrow>
          if cb_RoomID req \<le> 0 \<or> cb_StartTime req = [] \<or> cb_EndTime req = []
          then (Answered (StatusBadRequest, ErrorBody), d)
          else
     (case parse (cb_StartTime req) of
        None \<Rightarrow> (Answered (StatusBadRequest, ErrorBody), d)
      | Some s \<Rightarrow>
     (case parse (cb_EndTime req) of
        None \<Rightarrow> (Answered (StatusBadRequest, ErrorBody), d)
      | Some e \<Rightarrow>
          if \<not> e > s then (Answered (StatusBadRequest, ErrorBody), d)
          else
            (case count_overlapping d (cb_RoomID req) s e of
               (cnt, d1) \<Rightarrow>
                 if cnt > 0 then (Answered (StatusConflict, ErrorBody), d1)
                 else (Admit (cb_RoomID req) (au_ID u) s e, d1))))))"

definition createBooking_insert :: "db \<Rightarrow> admission \<Rightarrow> response \<times> db" where
  "createBooking_insert d a =
     (case a of
        Answered r \<Rightarrow> (r, d)
      | Admit room uid s e \<Rightarrow>
          (case insert_booking d room uid s e of
             (Inl err, d1) \<Rightarrow> ((StatusInternalServerError, ErrorBody), d1)
           | (Inr i, d1) \<Rightarrow> ((StatusCreated, IdBody i), d1)))"

definition handleCreateBooking ::
  "(string \<Rightarrow> instant option) \<Rightarrow> db \<Rightarrow> AuthUser option \<Rightarrow> createBookingRequest option
   \<Rightarrow> response \<times> db" where
  "handleCreateBooking parse d user body =
     (case createBooking_check parse d user body of (a, d1) \<Rightarrow> createBooking_insert d1 a)"

subsection \<open>Path parameters\<close>

text \<open>
  \<open>strconv.ParseInt(raw, 10, 64)\<close>: an optional sign, then one or more decimal digits,
  and the value within the range of \<open>int64\<close>.
\<close>

definition digit :: "char \<Rightarrow> int option" where
  "digit c = (let n = (of_char c :: int) in if 48 \<le> n \<and> n \<le> 57 then Some (n - 48) else None)"

fun ParseUint :: "int \<Rightarrow> string \<Rightarrow> int option" where
  "ParseUint n [] = Some n"
| "ParseUint n (c # cs) = (case digit c of None \<Rightarrow> None | Some v \<Rightarrow> ParseUint (n * 10 + v) cs)"

definition ParseInt :: "string \<Rightarrow> int option" where
  "ParseInt s0 =
     (if s0 = [] then None
      else
        let neg = (hd s0 = CHR ''-'');
            s = (if hd s0 = CHR ''+'' \<or> hd s0 = CHR ''-'' then tl s0 else s0)
        in if s = [] then None
           else (case ParseUint 0 s of
                   None \<Rightarrow> None
                 | Some un \<Rightarrow>
                     if \<not> neg \<and> un \<ge> 2 ^ 63 then None
                     else if neg \<and> un > 2 ^ 63 then None
                     else Some (if neg then - un else un)))"

definition parseIDParam :: "string \<Rightarrow> int option" where
  "parseIDParam raw =
     (case ParseInt raw of None \<Rightarrow> None | Some i \<Rightarrow> if i \<le> 0 then None else Some i)"

subsection \<open>The listings\<close>

text \<open>
  \<open>SELECT ... FROM bookings WHERE room_id = $1 AND status != 'cancelled' ORDER BY start_time\<close>.
  Rows with equal start times come in the order of the table (SQL leaves it open).
\<close>

definition select_room_bookings :: "db \<Rightarrow> int \<Rightarrow> Booking list \<times> db" where
  "select_room_bookings d room =
     (sort_key b_start_time
        (filter (\<lambda>b. b_room_id b = room \<and> b_status b \<noteq> ''cancelled'') (bookings d)),
      receive SelectRoomBookings d)"

definition handleRoomBookings :: "db \<Rightarrow> string \<Rightarrow> response \<times> db" where
  "handleRoomBookings d raw =
     (case parseIDParam raw of
        None \<Rightarrow> ((StatusBadRequest, ErrorBody), d)
      | Some roomID \<Rightarrow>
          (case select_room_bookings d roomID of
             (res, d1) \<Rightarrow> ((StatusOK, BookingsBody res), d1)))"

text \<open>\<open>SELECT ... FROM bookings WHERE user_id = $1 ORDER BY start_time DESC\<close>\<close>

definition select_my_bookings :: "db \<Rightarrow> int \<Rightarrow> Booking list \<times> db" where
  "select_my_bookings d uid =
     (rev (sort_key b_start_time (filter (\<lambda>b. b_user_id b = uid) (bookings d))),
      receive SelectMyBookings d)"

definition handleMyBookings :: "db \<Rightarrow> AuthUser option \<Rightarrow> response \<times> db" where
  "handleMyBookings d user =
     (case user of
        None \<Rightarrow> ((StatusUnauthorized, ErrorBody), d)
      | Some u \<Rightarrow>
          (case select_my_bookings d (au_ID u) of
             (res, d1) \<Rightarrow> ((StatusOK, BookingsBody res), d1)))"

subsection \<open>handleUpdateBooking and handleCancelBooking\<close>

text \<open>
  \<open>SELECT user_id FROM bookings WHERE id = $1\<close>, with the arguments the caller binds.
  The statement has one placeholder: bound to one argument it returns the owner of the
  row or no row (\<open>sql.ErrNoRows\<close>, here \<open>Inr None\<close>); bound to any other number of
  arguments it is refused.
\<close>

definition select_owner :: "db \<Rightarrow> int list \<Rightarrow> (db_error + int option) \<times> db" where
  "select_owner d args =
     (case args of
        [i] \<Rightarrow> (Inr (map_option b_user_id (find (\<lambda>b. b_id b = i) (bookings d))),
                receive SelectOwner d)
      | _ \<Rightarrow> (Inl NoParameter, receive SelectOwner d))"

definition set_status :: "string \<Rightarrow> int \<Rightarrow> Booking list \<Rightarrow> Booking list" where
  "set_status st i bs = map (\<lambda>b. if b_id b = i then b\<lparr>b_status := st\<rparr> else b) bs"

text \<open>
  \<open>UPDATE bookings SET status = $1 WHERE id = $2\<close>: refused by the CHECK on \<open>status\<close>
  when a row would receive a value outside the three.
\<close>

definition update_status :: "db \<Rightarrow> string \<Rightarrow> int \<Rightarrow> db_error option \<times> db" where
  "update_status d st i =
     (let d1 = receive UpdateStatus d
      in if list_ex (\<lambda>b. b_id b = i) (bookings d) \<and> \<not> status_check st
         then (Some CheckViolation, d1)
         else (None, d1\<lparr>bookings := set_status st i (bookings d)\<rparr>))"

text \<open>\<open>UPDATE bookings SET status = 'cancelled' WHERE id = $1\<close>\<close>

definition update_cancelled :: "db \<Rightarrow> int \<Rightarrow> db_error option \<times> db" where
  "update_cancelled d i =
     (None, (receive UpdateCancelled d)\<lparr>bookings := set_status ''cancelled'' i (bookings d)\<rparr>)"

record updateBookingRequest =
  ub_Status :: string

definition handleUpdateBooking ::
  "strings_pkg \<Rightarrow> db \<Rightarrow> AuthUser option \<Rightarrow> string \<Rightarrow> updateBookingRequest option
   \<Rightarrow> response \<times> db" where
  "handleUpdateBooking strings d user raw body =
     (case user of
        None \<Rightarrow> ((StatusUnauthorized, ErrorBody), d)
      | Some u \<Rightarrow>
     (case parseIDParam raw of
        None \<Rightarrow> ((StatusBadRequest, ErrorBody), d)
      | Some bookingID \<Rightarrow>
     (case body of
        None \<Rightarrow> ((StatusBadRequest, ErrorBody), d)
      | Some req \<Rightarrow>
          let st = ToLower strings (TrimSpace strings (ub_Status req))
          in if st = [] then ((StatusBadRequest, ErrorBody), d)
             else
               (case select_owner d [bookingID] of
                  (Inl err, d1) \<Rightarrow> ((StatusInternalServerError, ErrorBody), d1)
                | (Inr None, d1) \<Rightarrow> ((StatusNotFound, ErrorBody), d1)
                | (Inr (Some ownerID), d1) \<Rightarrow>
                    if au_Role u \<noteq> ''admin'' \<and> au_ID u \<noteq> ownerID
                    then ((StatusForbidden, ErrorBody), d1)
                    else
                      (case update_status d1 st bookingID of
                         (Some err, d2) \<Rightarrow> ((StatusInternalServerError, ErrorBody), d2)
                       | (None, d2) \<Rightarrow> ((StatusOK, StatusBody ''updated''), d2))))))"

text \<open>
  In \<open>handleCancelBooking\<close> the owner is looked up by
  \<open>a.DB.QueryRow(`SELECT user_id FROM bookings WHERE id = $1`).Scan(&ownerID)\<close>:
  the call binds no argument.
\<close>

definition handleCancelBooking :: "db \<Rightarrow> AuthUser option \<Rightarrow> string \<Rightarrow> response \<times> db" where
  "handleCancelBooking d user raw =
     (case user of
        None \<Rightarrow> ((StatusUnauthorized, ErrorBody), d)
      | Some u \<Rightarrow>
     (case parseIDParam raw of
        None \<Rightarrow> ((StatusBadRequest, ErrorBody), d)
      | Some bookingID \<Rightarrow>
          (case select_owner d [] of
             (Inl err, d1) \<Rightarrow> ((StatusInternalServerError, ErrorBody), d1)
           | (Inr None, d1) \<Rightarrow> ((StatusNotFound, ErrorBody), d1)
           | (Inr (Some ownerID), d1) \<Rightarrow>
               if au_Role u \<noteq> ''admin'' \<and> au_ID u \<noteq> ownerID
               then ((StatusForbidden, ErrorBody), d1)
               else
                 (case update_cancelled d1 bookingID of
                    (Some err, d2) \<Rightarrow> ((StatusInternalServerError, ErrorBody), d2)
                  | (None, d2) \<Rightarrow> ((StatusOK, StatusBody ''cancelled''), d2)))))"

subsection \<open>handleRegister\<close>

text \<open>
  \<open>INSERT INTO users (email, password_hash, role) VALUES ($1, $2, 'user') RETURNING id\<close>:
  refused when the email is taken (UNIQUE); the sequence value stays consumed.
\<close>

definition insert_user :: "db \<Rightarrow> string \<Rightarrow> string \<Rightarrow> (db_error + int) \<times> db" where
  "insert_user d email hash =
     (let i = users_id_seq d + 1;
          d1 = receive InsertUser (d\<lparr>users_id_seq := i\<rparr>)
      in if list_ex (\<lambda>u. u_email u = email) (users d)
         then (Inl UniqueViolation, d1)
         else (Inr i,
               d1\<lparr>users := users d @
                     [\<lparr>u_id = i, u_email = email, u_password_hash = hash, u_role = ''user''\<rparr>]\<rparr>))"

record registerRequest =
  rr_Email :: string
  rr_Password :: string

text \<open>\<open>bcrypt\<close> stands for \<open>bcrypt.GenerateFromPassword(_, bcrypt.DefaultCost)\<close>.\<close>

definition handleRegister ::
  "strings_pkg \<Rightarrow> (string \<Rightarrow> string option) \<Rightarrow> db \<Rightarrow> registerRequest option
   \<Rightarrow> response \<times> db" where
  "handleRegister strings bcrypt d body =
     (case body of
        None \<Rightarrow> ((StatusBadRequest, ErrorBody), d)
      | Some req \<Rightarrow>
          let email = TrimSpace strings (ToLower strings (rr_Email req))
          in if email = [] \<or> rr_Password req = [] then ((StatusBadRequest, ErrorBody), d)
             else
               (case bcrypt (rr_Password req) of
                  None \<Rightarrow> ((StatusInternalServerError, ErrorBody), d)
                | Some hash \<Rightarrow>
                    (case insert_user d email hash of
                       (Inl UniqueViolation, d1) \<Rightarrow> ((StatusBadRequest, ErrorBody), d1)
                     | (Inl _, d1) \<Rightarrow> ((StatusInternalServerError, ErrorBody), d1)
                     | (Inr i, d1) \<Rightarrow> ((StatusCreated, UserBody i email ''user''), d1))))"

subsection \<open>Requests served at the same time\<close>

text \<open>
  Every request runs in a goroutine of its own, and \<open>handleCreateBooking\<close> sends its two
  statements outside any transaction: the store executes each statement at once, and
  statements of other requests may come between the count and the insert. A request is
  at one of three points; a schedule names the request that moves next.
\<close>

datatype request_state =
  Arrived "AuthUser option" "createBookingRequest option"
| Checked admission
| Replied response

fun step_request ::
  "(string \<Rightarrow> instant option) \<Rightarrow> db \<Rightarrow> request_state \<Rightarrow> request_state \<times> db" where
  "step_request parse d (Arrived user body) =
     (case createBooking_check parse d user body of (a, d1) \<Rightarrow> (Checked a, d1))"
| "step_request parse d (Checked a) =
     (case createBooking_insert d a of (r, d1) \<Rightarrow> (Replied r, d1))"
| "step_request parse d (Replied r) = (Replied r, d)"

fun run_schedule ::
  "(string \<Rightarrow> instant option) \<Rightarrow> nat list \<Rightarrow> request_state list \<times> db
   \<Rightarrow> request_state list \<times> db" where
  "run_schedule parse [] cfg = cfg"
| "run_schedule parse (i # sched) (ts, d) =
     (if i < length ts
      then (case step_request parse d (ts ! i) of
              (t, d1) \<Rightarrow> run_schedule parse sched (ts[i := t], d1))
      else run_schedule parse sched (ts, d))"

text \<open>The invariant of the data model: active bookings of one room do not overlap.\<close>

fun no_double_booking :: "Booking list \<Rightarrow> bool" where
  "no_double_booking [] = True"
| "no_double_booking (b # bs) =
     (list_all (\<lambda>c. \<not> (b_room_id c = b_room_id b \<and> active b \<and> active c
                        \<and> sql_overlap (interval b) (interval c))) bs
      \<and> no_double_booking bs)"

subsection \<open>A store and requests for the examples\<close>

definition example_parse :: "string \<Rightarrow> instant option" where
  "example_parse =
     map_of [(''2024-05-01T09:00:00Z'', 540), (''2024-05-01T10:00:00Z'', 600),
             (''2024-05-01T10:30:00Z'', 630), (''2024-05-01T11:00:00Z'', 660),
             (''2024-05-01T12:00:00Z'', 720)]"

definition alice :: AuthUser where
  "alice = \<lparr>au_ID = 1, au_Role = ''user''\<rparr>"

definition bob :: AuthUser where
  "bob = \<lparr>au_ID = 2, au_Role = ''user''\<rparr>"

definition carol :: AuthUser where
  "carol = \<lparr>au_ID = 3, au_Role = ''admin''\<rparr>"

definition example_users :: "user_row list" where
  "example_users =
     [\<lparr>u_id = 1, u_email = ''alice@example.org'', u_password_hash = ''h1'', u_role = ''user''\<rparr>,
      \<lparr>u_id = 2, u_email = ''bob@example.org'', u_password_hash = ''h2'', u_role = ''user''\<rparr>,
      \<lparr>u_id = 3, u_email = ''carol@example.org'', u_password_hash = ''h3'', u_role = ''admin''\<rparr>]"

definition example_rooms :: "room_row list" where
  "example_rooms =
     [\<lparr>r_id = 1, r_name = ''Blue'', r_description = [], r_capacity = 4, r_photo_url = [],
       r_is_active = True\<rparr>]"

definition empty_db :: db where
  "empty_db = \<lparr>users = example_users, rooms = example_rooms, bookings = [],
               users_id_seq = 3, bookings_id_seq = 0, received = []\<rparr>"

definition booking :: "int \<Rightarrow> int \<Rightarrow> int \<Rightarrow> instant \<Rightarrow> instant \<Rightarrow> string \<Rightarrow> Booking" where
  "booking i room uid s e st =
     \<lparr>b_id = i, b_room_id = room, b_user_id = uid, b_start_time = s, b_end_time = e,
      b_status = st\<rparr>"

definition booked_db :: db where
  "booked_db = empty_db\<lparr>bookings := [booking 1 1 1 600 660 ''confirmed''],
                         bookings_id_seq := 1\<rparr>"

definition request :: "int \<Rightarrow> string \<Rightarrow> string \<Rightarrow> createBookingRequest" where
  "request room s e = \<lparr>cb_RoomID = room, cb_StartTime = s, cb_EndTime = e\<rparr>"

definition listing_db :: db where
  "listing_db = empty_db\<lparr>bookings :=
      [booking 1 1 1 660 720 ''confirmed'', booking 2 1 2 540 600 ''cancelled'',
       booking 3 1 2 600 660 ''pending'', booking 4 1 1 540 600 ''confirmed''],
     bookings_id_seq := 4\<rparr>"

definition cancelled_db :: db where
  "cancelled_db = empty_db\<lparr>bookings := [booking 1 1 1 600 660 ''cancelled''],
                            bookings_id_seq := 1\<rparr>"

definition example_bcrypt :: "string \<Rightarrow> string option" where
  "example_bcrypt p = Some (''$2a$10$'' @ p)"

text \<open>
  For the examples, whose strings are ASCII: on a string of ASCII bytes the library
  lower-cases the letters A to Z and trims tab, line feed, vertical tab, form feed,
  carriage return and space, and so do these.
\<close>

definition lower_char :: "char \<Rightarrow> char" where
  "lower_char c =
     (let n = (of_char c :: int) in if 65 \<le> n \<and> n \<le> 90 then char_of (n + 32) else c)"

definition is_space :: "char \<Rightarrow> bool" where
  "is_space c = (let n = (of_char c :: int) in (9 \<le> n \<and> n \<le> 13) \<or> n = 32)"

definition ascii_strings :: strings_pkg where
  "ascii_strings =
     \<lparr>ToLower = map lower_char,
      TrimSpace = (\<lambda>s. rev (dropWhile is_space (rev (dropWhile is_space s))))\<rparr>"

section \<open>Properties\<close>

lemmas example_defs = example_parse_def alice_def bob_def carol_def example_users_def
  example_rooms_def empty_db_def booking_def booked_db_def request_def

lemmas create_defs = handleCreateBooking_def createBooking_check_def createBooking_insert_def
  count_overlapping_def insert_booking_def receive_def active_def sql_overlap_def interval_def
  overlaps_spec_def

lemmas string_defs = ascii_strings_def lower_char_def is_space_def char_of_def

lemmas param_defs = parseIDParam_def ParseInt_def digit_def

subsection \<open>The overlap test\<close>

lemma sql_overlap_is_spec: "sql_overlap a b = overlaps_spec a b"
  by (auto simp: sql_overlap_def overlaps_spec_def)

text \<open>
  C9. The overlap test of the admission query is symmetric in its two intervals, and it
  is the predicate of the contract.
\<close>

theorem sql_overlap_symmetric:
  "sql_overlap a b = sql_overlap b a \<and> sql_overlap a b = (fst a < snd b \<and> fst b < snd a)"
  by (auto simp: sql_overlap_def)

subsection \<open>Admission\<close>

lemma count_pos_iff:
  "(fst (count_overlapping d room s e) > 0) =
     (\<exists>b\<in>set (bookings d). b_room_id b = room \<and> active b \<and> overlaps_spec (s, e) (interval b))"
  by (auto simp: count_overlapping_def sql_overlap_is_spec filter_empty_conv)

lemma check_valid:
  assumes "0 < cb_RoomID req" "cb_StartTime req \<noteq> []" "cb_EndTime req \<noteq> []"
    "parse (cb_StartTime req) = Some s" "parse (cb_EndTime req) = Some e" "s < e"
  shows "createBooking_check parse d (Some u) (Some req) =
     (if fst (count_overlapping d (cb_RoomID req) s e) > 0
      then Answered (StatusConflict, ErrorBody)
      else Admit (cb_RoomID req) (au_ID u) s e, receive CountOverlapping d)"
  using assms by (simp add: createBooking_check_def count_overlapping_def)

lemma insert_status:
  "fst (fst (createBooking_insert d (Admit room uid s e))) =
     (if list_ex (\<lambda>r. r_id r = room) (rooms d) \<and> list_ex (\<lambda>u. u_id u = uid) (users d)
      then StatusCreated else StatusInternalServerError)"
  by (simp add: createBooking_insert_def insert_booking_def Let_def)

lemma insert_bookings:
  "bookings (snd (createBooking_insert d (Admit room uid s e))) =
     (if list_ex (\<lambda>r. r_id r = room) (rooms d) \<and> list_ex (\<lambda>u. u_id u = uid) (users d)
      then bookings d @ [\<lparr>b_id = bookings_id_seq d + 1, b_room_id = room, b_user_id = uid,
                          b_start_time = s, b_end_time = e, b_status = ''confirmed''\<rparr>]
      else bookings d)"
  by (simp add: createBooking_insert_def insert_booking_def Let_def receive_def)

lemma receive_fields [simp]:
  "bookings (receive q d) = bookings d" "rooms (receive q d) = rooms d"
  "users (receive q d) = users d" "bookings_id_seq (receive q d) = bookings_id_seq d"
  "users_id_seq (receive q d) = users_id_seq d"
  by (simp_all add: receive_def)

text \<open>
  C2. For a request that passes validation (positive room id, both instants parse, start
  before end), create booking answers Conflict exactly when some pending or confirmed
  booking of the requested room overlaps the requested interval under the half-open
  predicate of the contract. When every pending or confirmed booking of the room ends at
  or before the requested start (touching included) or starts at or after the requested
  end, and the room and the caller are rows of the store, the request is admitted: the
  answer is Created with the next id and the booking is stored as confirmed.
\<close>

theorem create_booking_conflict_iff:
  assumes "0 < cb_RoomID req" "cb_StartTime req \<noteq> []" "cb_EndTime req \<noteq> []"
    and "parse (cb_StartTime req) = Some s" "parse (cb_EndTime req) = Some e" "s < e"
  shows "(fst (fst (handleCreateBooking parse d (Some u) (Some req))) = StatusConflict) =
           (\<exists>b\<in>set (bookings d). b_room_id b = cb_RoomID req \<and> active b
                \<and> overlaps_spec (s, e) (interval b))
       \<and> ((\<forall>b\<in>set (bookings d). b_room_id b = cb_RoomID req \<and> active b
                \<longrightarrow> b_end_time b \<le> s \<or> e \<le> b_start_time b)
            \<and> list_ex (\<lambda>r. r_id r = cb_RoomID req) (rooms d)
            \<and> list_ex (\<lambda>w. u_id w = au_ID u) (users d)
          \<longrightarrow> fst (handleCreateBooking parse d (Some u) (Some req))
                = (StatusCreated, IdBody (bookings_id_seq d + 1))
              \<and> bookings (snd (handleCreateBooking parse d (Some u) (Some req)))
                = bookings d @ [\<lparr>b_id = bookings_id_seq d + 1, b_room_id = cb_RoomID req,
                     b_user_id = au_ID u, b_start_time = s, b_end_time = e,
                     b_status = ''confirmed''\<rparr>])"
proof (intro conjI impI)
  let ?h = "handleCreateBooking parse d (Some u) (Some req)"
  let ?c = "fst (count_overlapping d (cb_RoomID req) s e)"
  have chk: "createBooking_check parse d (Some u) (Some req) =
     (if ?c > 0 then Answered (StatusConflict, ErrorBody)
      else Admit (cb_RoomID req) (au_ID u) s e, receive CountOverlapping d)"
    using assms by (rule check_valid)
  have st: "(fst (fst ?h) = StatusConflict) = (?c > 0)"
    by (simp add: handleCreateBooking_def chk insert_status)
       (simp add: createBooking_insert_def)
  show "(fst (fst ?h) = StatusConflict) =
           (\<exists>b\<in>set (bookings d). b_room_id b = cb_RoomID req \<and> active b
                \<and> overlaps_spec (s, e) (interval b))"
    unfolding st by (rule count_pos_iff)
  assume free: "(\<forall>b\<in>set (bookings d). b_room_id b = cb_RoomID req \<and> active b
                \<longrightarrow> b_end_time b \<le> s \<or> e \<le> b_start_time b)
            \<and> list_ex (\<lambda>r. r_id r = cb_RoomID req) (rooms d)
            \<and> list_ex (\<lambda>w. u_id w = au_ID u) (users d)"
  then have "\<not> (\<exists>b\<in>set (bookings d). b_room_id b = cb_RoomID req \<and> active b
                \<and> overlaps_spec (s, e) (interval b))"
    by (fastforce simp: overlaps_spec_def interval_def)
  then have c0: "\<not> ?c > 0" using count_pos_iff [of d "cb_RoomID req" s e] by blast
  show "fst ?h = (StatusCreated, IdBody (bookings_id_seq d + 1))"
    using free c0 by (simp add: handleCreateBooking_def chk createBooking_insert_def insert_booking_def Let_def)
  show "bookings (snd ?h) = bookings d @ [\<lparr>b_id = bookings_id_seq d + 1, b_room_id = cb_RoomID req,
                     b_user_id = au_ID u, b_start_time = s, b_end_time = e,
                     b_status = ''confirmed''\<rparr>]"
    using free c0 by (simp add: handleCreateBooking_def chk insert_bookings)
qed

text \<open>
  On a room booked from 10:00 to 11:00, the request from 11:00 to 12:00 is admitted and
  the request from 10:30 to 12:00 is answered Conflict.
\<close>

theorem create_booking_conflict_iff_witness:
  "fst (handleCreateBooking example_parse booked_db (Some bob)
          (Some (request 1 ''2024-05-01T11:00:00Z'' ''2024-05-01T12:00:00Z'')))
     = (StatusCreated, IdBody 2)
   \<and> fst (fst (handleCreateBooking example_parse booked_db (Some bob)
          (Some (request 1 ''2024-05-01T10:30:00Z'' ''2024-05-01T12:00:00Z''))))
     = StatusConflict"
proof -
  let ?r1 = "request 1 ''2024-05-01T11:00:00Z'' ''2024-05-01T12:00:00Z''"
  let ?r2 = "request 1 ''2024-05-01T10:30:00Z'' ''2024-05-01T12:00:00Z''"
  have a: "0 < cb_RoomID ?r1" "cb_StartTime ?r1 \<noteq> []" "cb_EndTime ?r1 \<noteq> []"
    "example_parse (cb_StartTime ?r1) = Some 660" "example_parse (cb_EndTime ?r1) = Some 720"
    "(660::int) < 720"
    by (simp_all add: example_defs)
  have b: "0 < cb_RoomID ?r2" "cb_StartTime ?r2 \<noteq> []" "cb_EndTime ?r2 \<noteq> []"
    "example_parse (cb_StartTime ?r2) = Some 630" "example_parse (cb_EndTime ?r2) = Some 720"
    "(630::int) < 720"
    by (simp_all add: example_defs)
  have free: "(\<forall>b\<in>set (bookings booked_db). b_room_id b = cb_RoomID ?r1 \<and> active b
                \<longrightarrow> b_end_time b \<le> 660 \<or> 720 \<le> b_start_time b)
            \<and> list_ex (\<lambda>r. r_id r = cb_RoomID ?r1) (rooms booked_db)
            \<and> list_ex (\<lambda>w. u_id w = au_ID bob) (users booked_db)"
    by (simp add: example_defs)
  have taken: "\<exists>b\<in>set (bookings booked_db). b_room_id b = cb_RoomID ?r2 \<and> active b
                \<and> overlaps_spec (630, 720) (interval b)"
    by (simp add: example_defs active_def overlaps_spec_def interval_def)
  have "fst (handleCreateBooking example_parse booked_db (Some bob) (Some ?r1))
     = (StatusCreated, IdBody (bookings_id_seq booked_db + 1))"
    using create_booking_conflict_iff [OF a, of booked_db bob] free by blast
  then have "fst (handleCreateBooking example_parse booked_db (Some bob) (Some ?r1))
     = (StatusCreated, IdBody 2)"
    by (simp add: booked_db_def empty_db_def)
  moreover have "fst (fst (handleCreateBooking example_parse booked_db (Some bob) (Some ?r2)))
     = StatusConflict"
    using create_booking_conflict_iff [OF b, of booked_db bob] taken by blast
  ultimately show ?thesis by simp
qed

text \<open>
  C7. A create-booking request whose end is not after its start is answered with
  BadRequest (the validation error) and the store is returned as it was: no statement
  was received by it (the field \<open>received\<close> is part of the store), so no count ran
  and no row was inserted.
\<close>

theorem create_booking_rejects_empty_interval:
  assumes "parse (cb_StartTime req) = Some s" "parse (cb_EndTime req) = Some e" "e \<le> s"
  shows "handleCreateBooking parse d (Some u) (Some req) = ((StatusBadRequest, ErrorBody), d)"
  using assms
  by (simp add: handleCreateBooking_def createBooking_check_def createBooking_insert_def)

text \<open>
  A request from 11:00 to 11:00.
\<close>

theorem create_booking_rejects_empty_interval_witness:
  "example_parse (cb_StartTime (request 1 ''2024-05-01T11:00:00Z'' ''2024-05-01T11:00:00Z'')) = Some 660
   \<and> example_parse (cb_EndTime (request 1 ''2024-05-01T11:00:00Z'' ''2024-05-01T11:00:00Z'')) = Some 660
   \<and> handleCreateBooking example_parse booked_db (Some bob)
        (Some (request 1 ''2024-05-01T11:00:00Z'' ''2024-05-01T11:00:00Z''))
      = ((StatusBadRequest, ErrorBody), booked_db)"
proof -
  let ?r = "request 1 ''2024-05-01T11:00:00Z'' ''2024-05-01T11:00:00Z''"
  have a: "example_parse (cb_StartTime ?r) = Some 660" "example_parse (cb_EndTime ?r) = Some 660"
    "(660::int) \<le> 660"
    by (simp_all add: example_defs)
  from create_booking_rejects_empty_interval [OF a] a(1,2) show ?thesis by blast
qed

text \<open>
  C3, as the code has it. \<open>handleCreateBooking\<close> never looks the room up: a request
  for a room id that is no row of \<open>rooms\<close> is never answered Created and never NotFound,
  and no booking is stored. When the request passes validation and no active booking
  carries that room id, the insert is refused by the reference to \<open>rooms(id)\<close> and the
  answer is InternalServerError.
\<close>

theorem create_booking_unknown_room:
  assumes "\<forall>r\<in>set (rooms d). r_id r \<noteq> cb_RoomID req"
  shows "bookings (snd (handleCreateBooking parse d user (Some req))) = bookings d
       \<and> fst (fst (handleCreateBooking parse d user (Some req))) \<noteq> StatusCreated
       \<and> fst (fst (handleCreateBooking parse d user (Some req))) \<noteq> StatusNotFound
       \<and> (user \<noteq> None \<and> 0 < cb_RoomID req \<and> cb_StartTime req \<noteq> [] \<and> cb_EndTime req \<noteq> []
            \<and> parse (cb_StartTime req) = Some s \<and> parse (cb_EndTime req) = Some e \<and> s < e
            \<and> \<not> (\<exists>b\<in>set (bookings d). b_room_id b = cb_RoomID req \<and> active b
                     \<and> overlaps_spec (s, e) (interval b))
          \<longrightarrow> fst (handleCreateBooking parse d user (Some req))
                = (StatusInternalServerError, ErrorBody))"
proof -
  have nr: "\<not> list_ex (\<lambda>r. r_id r = cb_RoomID req) (rooms d)"
    using assms by (simp add: list_ex_iff)
  have ins: "\<And>d1 uid s e. rooms d1 = rooms d \<Longrightarrow> bookings d1 = bookings d \<Longrightarrow>
      fst (createBooking_insert d1 (Admit (cb_RoomID req) uid s e)) = (StatusInternalServerError, ErrorBody)
      \<and> bookings (snd (createBooking_insert d1 (Admit (cb_RoomID req) uid s e))) = bookings d"
    using nr by (simp add: createBooking_insert_def insert_booking_def Let_def)
  have chk: "(\<exists>r. createBooking_check parse d user (Some req) = (Answered r, d) \<and> fst r \<noteq> StatusCreated \<and> fst r \<noteq> StatusNotFound)
      \<or> (\<exists>r. createBooking_check parse d user (Some req) = (Answered r, receive CountOverlapping d) \<and> fst r \<noteq> StatusCreated \<and> fst r \<noteq> StatusNotFound)
      \<or> (\<exists>uid s e. createBooking_check parse d user (Some req) = (Admit (cb_RoomID req) uid s e, receive CountOverlapping d))"
    by (simp add: createBooking_check_def count_overlapping_def split: option.splits)
  have a: "bookings (snd (handleCreateBooking parse d user (Some req))) = bookings d
       \<and> fst (fst (handleCreateBooking parse d user (Some req))) \<noteq> StatusCreated
       \<and> fst (fst (handleCreateBooking parse d user (Some req))) \<noteq> StatusNotFound"
    using chk
  proof (elim disjE exE conjE)
    fix r assume "createBooking_check parse d user (Some req) = (Answered r, d)"
      "fst r \<noteq> StatusCreated" "fst r \<noteq> StatusNotFound"
    then show ?thesis by (simp add: handleCreateBooking_def createBooking_insert_def)
  next
    fix r assume "createBooking_check parse d user (Some req) = (Answered r, receive CountOverlapping d)"
      "fst r \<noteq> StatusCreated" "fst r \<noteq> StatusNotFound"
    then show ?thesis by (simp add: handleCreateBooking_def createBooking_insert_def)
  next
    fix uid s e
    assume "createBooking_check parse d user (Some req) = (Admit (cb_RoomID req) uid s e, receive CountOverlapping d)"
    then show ?thesis using ins [of "receive CountOverlapping d" uid s e]
      by (simp add: handleCreateBooking_def)
  qed
  have b: "fst (handleCreateBooking parse d user (Some req)) = (StatusInternalServerError, ErrorBody)"
    if v: "user \<noteq> None \<and> 0 < cb_RoomID req \<and> cb_StartTime req \<noteq> [] \<and> cb_EndTime req \<noteq> []
            \<and> parse (cb_StartTime req) = Some s \<and> parse (cb_EndTime req) = Some e \<and> s < e
            \<and> \<not> (\<exists>b\<in>set (bookings d). b_room_id b = cb_RoomID req \<and> active b
                     \<and> overlaps_spec (s, e) (interval b))"
  proof -
    from v obtain u where u: "user = Some u" by blast
    from v have c0: "\<not> fst (count_overlapping d (cb_RoomID req) s e) > 0"
      using count_pos_iff [of d "cb_RoomID req" s e] by blast
    have "createBooking_check parse d (Some u) (Some req) =
        (Admit (cb_RoomID req) (au_ID u) s e, receive CountOverlapping d)"
      using v c0 check_valid [of req parse s e d u] by simp
    then show ?thesis using ins [of "receive CountOverlapping d" "au_ID u" s e] u
      by (simp add: handleCreateBooking_def)
  qed
  from a b show ?thesis by blast
qed

text \<open>
  Room 7 is not in the example store.
\<close>

theorem create_booking_unknown_room_witness:
  "map r_id (rooms booked_db) = [1]
   \<and> cb_RoomID (request 7 ''2024-05-01T09:00:00Z'' ''2024-05-01T10:00:00Z'') = 7
   \<and> bookings (snd (handleCreateBooking example_parse booked_db (Some bob)
        (Some (request 7 ''2024-05-01T09:00:00Z'' ''2024-05-01T10:00:00Z'')))) = bookings booked_db
   \<and> fst (fst (handleCreateBooking example_parse booked_db (Some bob)
        (Some (request 7 ''2024-05-01T09:00:00Z'' ''2024-05-01T10:00:00Z'')))) \<noteq> StatusCreated"
proof -
  let ?r = "request 7 ''2024-05-01T09:00:00Z'' ''2024-05-01T10:00:00Z''"
  have ids: "map r_id (rooms booked_db) = [1]" "cb_RoomID ?r = 7"
    by (simp_all add: example_defs)
  have a: "\<forall>r\<in>set (rooms booked_db). r_id r \<noteq> cb_RoomID ?r"
    by (simp add: example_defs)
  from create_booking_unknown_room [OF a, of example_parse "Some bob"] ids show ?thesis by blast
qed

text \<open>
  C3 as stated fails: the only room has id 1, and a valid request for room 7 is answered
  InternalServerError, not NotFound.
\<close>

theorem create_booking_unknown_room_counterexample:
  "map r_id (rooms booked_db) = [1]
   \<and> handleCreateBooking example_parse booked_db (Some bob)
        (Some (request 7 ''2024-05-01T09:00:00Z'' ''2024-05-01T10:00:00Z''))
     = ((StatusInternalServerError, ErrorBody),
        booked_db\<lparr>bookings_id_seq := 2, received := [CountOverlapping, InsertBooking]\<rparr>)"
  by (simp add: example_defs create_defs)

subsection \<open>Admission when requests are served at the same time\<close>

text \<open>
  A request that moves twice with nothing in between is the handler.
\<close>

lemma run_schedule_alone:
  "run_schedule parse [0, 0] ([Arrived user body], d)
     = ([Replied (fst (handleCreateBooking parse d user body))],
        snd (handleCreateBooking parse d user body))"
  by (simp add: handleCreateBooking_def split: prod.splits)

lemma no_double_booking_snoc:
  "no_double_booking (bs @ [n]) =
     (no_double_booking bs \<and>
      list_all (\<lambda>b. \<not> (b_room_id n = b_room_id b \<and> active b \<and> active n
                         \<and> sql_overlap (interval b) (interval n))) bs)"
  by (induction bs) auto

lemma check_admits_free_interval:
  assumes "createBooking_check parse d user body = (Admit room uid s e, d1)"
  shows "bookings d1 = bookings d \<and> rooms d1 = rooms d \<and> users d1 = users d
       \<and> list_all (\<lambda>b. \<not> (b_room_id b = room \<and> active b \<and> sql_overlap (s, e) (interval b)))
            (bookings d)"
  using assms
  by (auto simp: createBooking_check_def count_overlapping_def filter_empty_conv list_all_iff
      split: option.splits if_splits)

lemma check_answered_keeps_bookings:
  assumes "createBooking_check parse d user body = (Answered r, d1)"
  shows "bookings d1 = bookings d"
  using assms
  by (auto simp: createBooking_check_def count_overlapping_def split: option.splits if_splits)

text \<open>
  A request served without another one in between keeps the invariant.
\<close>

lemma create_booking_alone_keeps_invariant:
  assumes "no_double_booking (bookings d)"
  shows "no_double_booking (bookings (snd (handleCreateBooking parse d user body)))"
proof (cases "createBooking_check parse d user body")
  case (Pair a d1)
  show ?thesis
  proof (cases a)
    case (Answered r)
    with Pair assms check_answered_keeps_bookings [of parse d user body r d1] show ?thesis
      by (simp add: handleCreateBooking_def createBooking_insert_def)
  next
    case (Admit room uid s e)
    with Pair have c: "createBooking_check parse d user body = (Admit room uid s e, d1)" by simp
    note f = check_admits_free_interval [OF c]
    have sym: "sql_overlap (interval b) (s, e) = sql_overlap (s, e) (interval b)" for b
      by (auto simp: sql_overlap_def)
    from f have "list_all (\<lambda>b. \<not> (room = b_room_id b \<and> active b \<and> sql_overlap (interval b) (s, e)))
            (bookings d)"
      by (auto simp: list_all_iff sym)
    with assms f c show ?thesis
      by (auto simp: handleCreateBooking_def insert_bookings no_double_booking_snoc interval_def
          list_all_iff)
  qed
qed

text \<open>
  The same two requests served one after the other: Created, then Conflict.
\<close>

lemma one_after_the_other:
  "run_schedule example_parse [0, 0, 1, 1]
     ([Arrived (Some alice) (Some (request 1 ''2024-05-01T09:00:00Z'' ''2024-05-01T10:00:00Z'')),
       Arrived (Some bob) (Some (request 1 ''2024-05-01T09:00:00Z'' ''2024-05-01T10:00:00Z''))],
      empty_db)
   = ([Replied (StatusCreated, IdBody 1), Replied (StatusConflict, ErrorBody)],
      empty_db\<lparr>bookings := [booking 1 1 1 540 600 ''confirmed''],
               bookings_id_seq := 1,
               received := [CountOverlapping, InsertBooking, CountOverlapping]\<rparr>)"
  by (simp add: example_defs create_defs)

text \<open>
  C1. Two requests for room 1 over the same interval, 09:00 to 10:00, on a store without
  bookings, served so that both counts run before either insert: both are answered
  Created, and the store then holds two confirmed bookings of room 1 over the same
  interval. The store satisfied the invariant before; it does not after.
\<close>

theorem concurrent_create_double_booking:
  "run_schedule example_parse [0, 1, 0, 1]
     ([Arrived (Some alice) (Some (request 1 ''2024-05-01T09:00:00Z'' ''2024-05-01T10:00:00Z'')),
       Arrived (Some bob) (Some (request 1 ''2024-05-01T09:00:00Z'' ''2024-05-01T10:00:00Z''))],
      empty_db)
   = ([Replied (StatusCreated, IdBody 1), Replied (StatusCreated, IdBody 2)],
      empty_db\<lparr>bookings := [booking 1 1 1 540 600 ''confirmed'', booking 2 1 2 540 600 ''confirmed''],
               bookings_id_seq := 2,
               received := [CountOverlapping, CountOverlapping, InsertBooking, InsertBooking]\<rparr>)
   \<and> no_double_booking (bookings empty_db)
   \<and> \<not> no_double_booking [booking 1 1 1 540 600 ''confirmed'', booking 2 1 2 540 600 ''confirmed'']"
  by (simp add: example_defs create_defs)

subsection \<open>Update and cancel\<close>

lemma find_Some_list_ex: "find P xs = Some x \<Longrightarrow> list_ex P xs"
  by (induction xs) (auto split: if_splits)

text \<open>
  The ownership test of \<open>handleUpdateBooking\<close>: on an existing booking and a request
  with a status, the answer is Forbidden exactly for a caller who is neither an admin nor
  the owner, and then the bookings are unchanged.
\<close>

lemma update_booking_ownership_gate:
  assumes "parseIDParam raw = Some i"
    and "find (\<lambda>b. b_id b = i) (bookings d) = Some b0"
    and "ToLower strings (TrimSpace strings (ub_Status req)) \<noteq> []"
  shows "(fst (fst (handleUpdateBooking strings d (Some u) raw (Some req))) = StatusForbidden)
           = (au_Role u \<noteq> ''admin'' \<and> au_ID u \<noteq> b_user_id b0)"
    and "au_Role u \<noteq> ''admin'' \<and> au_ID u \<noteq> b_user_id b0 \<Longrightarrow>
           bookings (snd (handleUpdateBooking strings d (Some u) raw (Some req))) = bookings d"
  using assms
  by (auto simp: handleUpdateBooking_def select_owner_def update_status_def Let_def
      split: if_splits)

text \<open>
  The owner lookup of \<open>handleCancelBooking\<close> is refused by the store for every
  booking id, so the handler never gets to its ownership test or to its update.
\<close>

lemma cancel_booking_never_ok:
  "fst (handleCancelBooking d user raw) \<in>
     {(StatusUnauthorized, ErrorBody), (StatusBadRequest, ErrorBody),
      (StatusInternalServerError, ErrorBody)}
   \<and> bookings (snd (handleCancelBooking d user raw)) = bookings d"
  by (simp add: handleCancelBooking_def select_owner_def split: option.splits)

text \<open>
  C4. Alice owns booking 1. Her cancel request is answered InternalServerError and the
  booking stays confirmed (the store only records the refused lookup); on a booking that
  is already cancelled the answer is InternalServerError too.
\<close>

theorem cancel_by_owner_fails:
  "b_user_id (booking 1 1 1 600 660 ''confirmed'') = au_ID alice
   \<and> bookings booked_db = [booking 1 1 1 600 660 ''confirmed'']
   \<and> handleCancelBooking booked_db (Some alice) ''1''
       = ((StatusInternalServerError, ErrorBody), booked_db\<lparr>received := [SelectOwner]\<rparr>)
   \<and> handleCancelBooking cancelled_db (Some alice) ''1''
       = ((StatusInternalServerError, ErrorBody), cancelled_db\<lparr>received := [SelectOwner]\<rparr>)"
  by (simp add: handleCancelBooking_def select_owner_def receive_def param_defs
      booked_db_def cancelled_db_def empty_db_def booking_def alice_def)

text \<open>
  C5. Bob is neither the owner of booking 1 nor an admin: his cancel request is answered
  InternalServerError, not Forbidden. Carol is an admin: her cancel request is answered
  InternalServerError as well. The update handler, whose lookup binds the booking id,
  answers Forbidden to every request of Bob that carries a status, and never Forbidden to
  Carol: her request is answered OK when the status is one the column accepts.
\<close>

theorem cancel_gate_not_reached:
  "b_user_id (booking 1 1 1 600 660 ''confirmed'') \<noteq> au_ID bob \<and> au_Role bob \<noteq> ''admin''
   \<and> fst (handleCancelBooking booked_db (Some bob) ''1'') = (StatusInternalServerError, ErrorBody)
   \<and> au_Role carol = ''admin''
   \<and> fst (handleCancelBooking booked_db (Some carol) ''1'') = (StatusInternalServerError, ErrorBody)
   \<and> fst (handleUpdateBooking strings booked_db (Some bob) ''1'' (Some req))
       = (if ToLower strings (TrimSpace strings (ub_Status req)) = []
          then (StatusBadRequest, ErrorBody) else (StatusForbidden, ErrorBody))
   \<and> fst (handleUpdateBooking strings booked_db (Some carol) ''1'' (Some req))
       = (if ToLower strings (TrimSpace strings (ub_Status req)) = []
          then (StatusBadRequest, ErrorBody)
          else if status_check (ToLower strings (TrimSpace strings (ub_Status req)))
          then (StatusOK, StatusBody ''updated'')
          else (StatusInternalServerError, ErrorBody))"
  by (simp add: handleCancelBooking_def handleUpdateBooking_def select_owner_def update_status_def
      receive_def param_defs booked_db_def empty_db_def booking_def bob_def carol_def Let_def)

text \<open>
  C6, as the code has it. \<open>handleUpdateBooking\<close> never reads the current status. For
  an admin or the owner of an existing booking, a requested status that is (after
  \<open>strings.TrimSpace\<close> and \<open>strings.ToLower\<close>, whatever they compute) one of pending,
  confirmed, cancelled is written to the
  booking and the answer is OK, whatever the status was; any other status is refused by
  the CHECK of the column, the answer is InternalServerError and the bookings are
  unchanged.
\<close>

theorem update_status_any_transition:
  assumes "parseIDParam raw = Some i"
    and "find (\<lambda>b. b_id b = i) (bookings d) = Some b0"
    and "au_Role u = ''admin'' \<or> au_ID u = b_user_id b0"
    and "ToLower strings (TrimSpace strings (ub_Status req)) = st" "st \<noteq> []"
  shows "(status_check st \<longrightarrow>
            fst (handleUpdateBooking strings d (Some u) raw (Some req))
              = (StatusOK, StatusBody ''updated'')
          \<and> bookings (snd (handleUpdateBooking strings d (Some u) raw (Some req)))
              = set_status st i (bookings d))
       \<and> (\<not> status_check st \<longrightarrow>
            fst (handleUpdateBooking strings d (Some u) raw (Some req))
              = (StatusInternalServerError, ErrorBody)
          \<and> bookings (snd (handleUpdateBooking strings d (Some u) raw (Some req))) = bookings d)"
proof -
  have ex: "list_ex (\<lambda>b. b_id b = i) (bookings d)"
    using assms(2) by (rule find_Some_list_ex)
  show ?thesis using assms ex
    by (auto simp: handleUpdateBooking_def select_owner_def update_status_def Let_def)
qed

text \<open>
  The owner moves a cancelled booking to pending.
\<close>

theorem update_status_any_transition_witness:
  "fst (handleUpdateBooking ascii_strings cancelled_db (Some alice) ''1''
          (Some \<lparr>ub_Status = ''Pending ''\<rparr>))
     = (StatusOK, StatusBody ''updated'')
   \<and> bookings (snd (handleUpdateBooking ascii_strings cancelled_db (Some alice) ''1''
        (Some \<lparr>ub_Status = ''Pending ''\<rparr>)))
     = [booking 1 1 1 600 660 ''pending'']"
proof -
  have a: "parseIDParam ''1'' = Some 1"
    "find (\<lambda>b. b_id b = 1) (bookings cancelled_db) = Some (booking 1 1 1 600 660 ''cancelled'')"
    "au_Role alice = ''admin'' \<or> au_ID alice = b_user_id (booking 1 1 1 600 660 ''cancelled'')"
    "ToLower ascii_strings (TrimSpace ascii_strings (ub_Status \<lparr>ub_Status = ''Pending ''\<rparr>))
       = ''pending''"
    "''pending'' \<noteq> []"
    by (simp_all add: param_defs string_defs cancelled_db_def empty_db_def booking_def alice_def)
  have c: "status_check ''pending''" by (simp add: status_check_def)
  have s: "set_status ''pending'' 1 (bookings cancelled_db) = [booking 1 1 1 600 660 ''pending'']"
    by (simp add: set_status_def cancelled_db_def empty_db_def booking_def)
  from update_status_any_transition [OF a] c s show ?thesis by simp
qed

text \<open>
  C6 as stated fails: the owner's request to confirm a cancelled booking is answered OK
  and the booking is confirmed afterwards.
\<close>

theorem update_status_cancelled_to_confirmed_counterexample:
  "bookings cancelled_db = [booking 1 1 1 600 660 ''cancelled'']
   \<and> fst (handleUpdateBooking ascii_strings cancelled_db (Some alice) ''1''
        (Some \<lparr>ub_Status = ''confirmed''\<rparr>))
     = (StatusOK, StatusBody ''updated'')
   \<and> bookings (snd (handleUpdateBooking ascii_strings cancelled_db (Some alice) ''1''
        (Some \<lparr>ub_Status = ''confirmed''\<rparr>)))
     = [booking 1 1 1 600 660 ''confirmed'']"
  by (simp add: handleUpdateBooking_def select_owner_def update_status_def set_status_def
      status_check_def receive_def param_defs string_defs cancelled_db_def empty_db_def
      booking_def alice_def Let_def)

text \<open>
  The stored status is the one the library computes: whatever \<open>strings\<close> makes
  \<open>pending\<close> of the requested text (the library does so for a text with a leading
  no-break space or with letters of another case), the owner's request is answered OK
  and the cancelled booking is pending afterwards.
\<close>

lemma update_status_follows_the_library:
  assumes "ToLower strings (TrimSpace strings s) = ''pending''"
  shows "fst (handleUpdateBooking strings cancelled_db (Some alice) ''1'' (Some \<lparr>ub_Status = s\<rparr>))
           = (StatusOK, StatusBody ''updated'')
       \<and> bookings (snd (handleUpdateBooking strings cancelled_db (Some alice) ''1''
            (Some \<lparr>ub_Status = s\<rparr>)))
           = [booking 1 1 1 600 660 ''pending'']"
  using assms
  by (simp add: handleUpdateBooking_def select_owner_def update_status_def set_status_def
      status_check_def receive_def param_defs cancelled_db_def empty_db_def
      booking_def alice_def Let_def)

subsection \<open>Listings\<close>

text \<open>
  C8. For a well-formed room id, the listing of a room is answered OK with the bookings
  of that room whose status is not cancelled, each as often as the table has it, in
  ascending order of start time. The listing of a caller is answered OK with all bookings
  of the caller, whatever their status, in descending order of start time. Neither
  changes the bookings.
\<close>

theorem listings_filter_and_order:
  assumes "parseIDParam raw = Some room"
  shows "fst (handleRoomBookings d raw) = (StatusOK, BookingsBody (fst (select_room_bookings d room)))
       \<and> mset (fst (select_room_bookings d room))
           = mset (filter (\<lambda>b. b_room_id b = room \<and> b_status b \<noteq> ''cancelled'') (bookings d))
       \<and> sorted (map b_start_time (fst (select_room_bookings d room)))
       \<and> bookings (snd (handleRoomBookings d raw)) = bookings d
       \<and> fst (handleMyBookings d (Some u)) = (StatusOK, BookingsBody (fst (select_my_bookings d (au_ID u))))
       \<and> mset (fst (select_my_bookings d (au_ID u)))
           = mset (filter (\<lambda>b. b_user_id b = au_ID u) (bookings d))
       \<and> sorted_wrt (\<lambda>x y. x \<ge> y) (map b_start_time (fst (select_my_bookings d (au_ID u))))
       \<and> bookings (snd (handleMyBookings d (Some u))) = bookings d"
proof -
  have "sorted_wrt (\<lambda>x y. x \<ge> y) (rev (map b_start_time (sort_key b_start_time xs)))" for xs :: "Booking list"
    using sorted_sort_key [of b_start_time xs] by (simp add: sorted_wrt_rev)
  then show ?thesis using assms
    by (simp add: handleRoomBookings_def handleMyBookings_def select_room_bookings_def
        select_my_bookings_def rev_map)
qed

text \<open>
  A room with a cancelled booking: the room listing leaves it out, the listing of its
  owner has it.
\<close>

theorem listings_filter_and_order_witness:
  "parseIDParam ''1'' = Some 1
   \<and> fst (handleRoomBookings listing_db ''1'')
       = (StatusOK, BookingsBody [booking 4 1 1 540 600 ''confirmed'', booking 3 1 2 600 660 ''pending'',
                                  booking 1 1 1 660 720 ''confirmed''])
   \<and> fst (handleMyBookings listing_db (Some bob))
       = (StatusOK, BookingsBody [booking 3 1 2 600 660 ''pending'', booking 2 1 2 540 600 ''cancelled''])"
proof -
  have p: "parseIDParam ''1'' = Some 1"
    by (simp add: parseIDParam_def ParseInt_def digit_def)
  have r: "fst (select_room_bookings listing_db 1)
      = [booking 4 1 1 540 600 ''confirmed'', booking 3 1 2 600 660 ''pending'',
         booking 1 1 1 660 720 ''confirmed'']"
    by (simp add: select_room_bookings_def listing_db_def empty_db_def booking_def)
  have m: "fst (select_my_bookings listing_db (au_ID bob))
      = [booking 3 1 2 600 660 ''pending'', booking 2 1 2 540 600 ''cancelled'']"
    by (simp add: select_my_bookings_def listing_db_def empty_db_def booking_def bob_def)
  from listings_filter_and_order [OF p, of listing_db bob] p r m show ?thesis by simp
qed

subsection \<open>Registration\<close>

text \<open>
  C10. Registration leaves the rows whose role is not \<open>user\<close> as they were, so it adds
  no admin. When it answers Created it has added exactly one row, with role \<open>user\<close>,
  and reports that role; when it answers anything else the users are unchanged.
\<close>

theorem register_role_user:
  "filter (\<lambda>w. u_role w \<noteq> ''user'') (users (snd (handleRegister strings bcrypt d body)))
     = filter (\<lambda>w. u_role w \<noteq> ''user'') (users d)
   \<and> (fst (fst (handleRegister strings bcrypt d body)) = StatusCreated \<longrightarrow>
        (\<exists>req hash. body = Some req \<and> bcrypt (rr_Password req) = Some hash
          \<and> users (snd (handleRegister strings bcrypt d body))
              = users d @ [\<lparr>u_id = users_id_seq d + 1,
                             u_email = TrimSpace strings (ToLower strings (rr_Email req)),
                             u_password_hash = hash, u_role = ''user''\<rparr>]
          \<and> snd (fst (handleRegister strings bcrypt d body))
              = UserBody (users_id_seq d + 1)
                  (TrimSpace strings (ToLower strings (rr_Email req))) ''user''))
   \<and> (fst (fst (handleRegister strings bcrypt d body)) \<noteq> StatusCreated \<longrightarrow>
        users (snd (handleRegister strings bcrypt d body)) = users d)"
  by (auto simp: handleRegister_def insert_user_def Let_def receive_def
           split: option.splits)

text \<open>
  A registration on the example store: the new row is the fourth, with role \<open>user\<close>.
\<close>

theorem register_role_user_witness:
  "fst (handleRegister ascii_strings example_bcrypt empty_db
          (Some \<lparr>rr_Email = '' Dave@Example.org'', rr_Password = ''pw''\<rparr>))
     = (StatusCreated, UserBody 4 ''dave@example.org'' ''user'')
   \<and> map u_role (users (snd (handleRegister ascii_strings example_bcrypt empty_db
          (Some \<lparr>rr_Email = '' Dave@Example.org'', rr_Password = ''pw''\<rparr>))))
     = [''user'', ''user'', ''admin'', ''user'']"
proof -
  let ?b = "Some \<lparr>rr_Email = '' Dave@Example.org'', rr_Password = ''pw''\<rparr>"
  have e: "TrimSpace ascii_strings (ToLower ascii_strings '' Dave@Example.org'')
      = ''dave@example.org''"
    by (simp add: string_defs)
  have r: "fst (handleRegister ascii_strings example_bcrypt empty_db ?b)
     = (StatusCreated, UserBody 4 ''dave@example.org'' ''user'')"
    by (simp add: handleRegister_def e example_bcrypt_def insert_user_def Let_def
        empty_db_def example_users_def)
  then have "fst (fst (handleRegister ascii_strings example_bcrypt empty_db ?b)) = StatusCreated"
    by simp
  with register_role_user [of ascii_strings example_bcrypt empty_db ?b]
  have "users (snd (handleRegister ascii_strings example_bcrypt empty_db ?b))
          = users empty_db @ [\<lparr>u_id = users_id_seq empty_db + 1,
                             u_email = TrimSpace ascii_strings (ToLower ascii_strings '' Dave@Example.org''),
                             u_password_hash = ''$2a$10$pw'', u_role = ''user''\<rparr>]"
    by (auto simp: example_bcrypt_def)
  then have "map u_role (users (snd (handleRegister ascii_strings example_bcrypt empty_db ?b)))
     = [''user'', ''user'', ''admin'', ''user'']"
    by (simp add: empty_db_def example_users_def)
  with r show ?thesis by simp
qed

end
